theory Spec2Isabelle
  imports Main
begin

section \<open>The test server script \<open>test3/start-test-server.py\<close>\<close>

text \<open>
  The script is one module: a module-level \<^verbatim>\<open>os.chdir\<close>, the constant \<^verbatim>\<open>PORT\<close>, the class
  \<^verbatim>\<open>MyHTTPRequestHandler\<close> that overrides \<^verbatim>\<open>end_headers\<close>, and \<^verbatim>\<open>main\<close>.
  Everything observable that the script does is an effect on the process (a change of
  directory, the construction of the listener, a line printed, a request handed to the
  handler class, the listener closed), so a run is modelled by the list of its effects, in
  order, and by how it ended. What the outside world does (whether the listener can be
  bound, what arrives while serving) is the environment, an argument of the model.
\<close>

subsection \<open>Python values\<close>

text \<open>
  Strings are byte lists (\<^typ>\<open>string\<close>); the script's non-ASCII characters are written as the
  UTF-8 bytes they have in the source file.

  Exceptions: the two classes \<^verbatim>\<open>main\<close> names in its \<^verbatim>\<open>except\<close> clauses, and every other
  class. Of an \<^verbatim>\<open>OSError\<close> the script reads \<^verbatim>\<open>e.errno\<close> (which Python leaves \<^verbatim>\<open>None\<close>
  when the error was built without one) and \<^verbatim>\<open>str(e)\<close>, through the f-string.
\<close>

datatype exn =
    KeyboardInterrupt
  | OSError "int option" string
  | OtherException string

text \<open>\<^verbatim>\<open>str(n)\<close> of a Python integer, which the f-strings apply to \<^verbatim>\<open>PORT\<close>.\<close>

definition digit_char :: "nat \<Rightarrow> char" where
  "digit_char d = ''0123456789'' ! d"

function str_nat :: "nat \<Rightarrow> string" where
  "str_nat n = (if n < 10 then [digit_char n] else str_nat (n div 10) @ [digit_char (n mod 10)])"
  by pat_completeness auto
termination
  by (relation "measure id") auto

definition str_int :: "int \<Rightarrow> string" where
  "str_int i = (if i < 0 then ''-'' @ str_nat (nat (- i)) else str_nat (nat i))"

subsection \<open>The request handler\<close>

text \<open>
  \<^verbatim>\<open>MyHTTPRequestHandler\<close> inherits everything but \<^verbatim>\<open>end_headers\<close> from the standard
  library's \<^verbatim>\<open>http.server.SimpleHTTPRequestHandler\<close>. The override calls three inherited
  methods of \<^verbatim>\<open>BaseHTTPRequestHandler\<close>, which are not part of the repository; they are
  embedded from CPython's \<^verbatim>\<open>Lib/http/server.py\<close>:
  \<^verbatim>\<open>
    def send_header(self, keyword, value):
        if self.request_version != 'HTTP/0.9':
            if not hasattr(self, '_headers_buffer'):
                self._headers_buffer = []
            self._headers_buffer.append(
                ("%s: %s\r\n" % (keyword, value)).encode('latin-1', 'strict'))
        if keyword.lower() == 'connection':
            if value.lower() == 'close':
                self.close_connection = True
            elif value.lower() == 'keep-alive':
                self.close_connection = False

    def end_headers(self):
        if self.request_version != 'HTTP/0.9':
            self._headers_buffer.append(b"\r\n")
            self.flush_headers()

    def flush_headers(self):
        if hasattr(self, '_headers_buffer'):
            self.wfile.write(b"".join(self._headers_buffer))
            self._headers_buffer = []
  \<close>
  The handler object is the record of the attributes these methods touch. An attribute
  that may be missing is an option; \<open>wfile\<close> is every byte written to the connection so far.
  \<open>request_version\<close> is kept by the inherited request parsing, which is not embedded here:
  \<^verbatim>\<open>parse_request\<close> first sets it to the class's \<^verbatim>\<open>default_request_version\<close>, \<^verbatim>\<open>'HTTP/0.9'\<close>,
  and replaces that by the last word of the request line only once it has accepted it as a
  version. The properties of the handler are stated on the value the attribute has when
  \<^verbatim>\<open>end_headers\<close> is called.
\<close>

record handler =
  request_version :: string
  headers_buffer :: "string list option"
  close_connection :: bool
  wfile :: string

definition CRLF :: string where
  "CRLF = [CHR 0x0D, CHR 0x0A]"

definition lower_char :: "char \<Rightarrow> char" where
  "lower_char c =
     (let n = (of_char c :: nat) in if 65 \<le> n \<and> n \<le> 90 then char_of (n + 32) else c)"

definition lower :: "string \<Rightarrow> string" where
  "lower s = map lower_char s"

definition send_header :: "string \<Rightarrow> string \<Rightarrow> handler \<Rightarrow> handler" where
  "send_header keyword val h =
     (let h1 =
        (if request_version h \<noteq> ''HTTP/0.9'' then
           h\<lparr>headers_buffer :=
               Some ((case headers_buffer h of None \<Rightarrow> [] | Some b \<Rightarrow> b)
                     @ [keyword @ '': '' @ val @ CRLF])\<rparr>
         else h)
      in
        if lower keyword = ''connection'' then
          (if lower val = ''close'' then h1\<lparr>close_connection := True\<rparr>
           else if lower val = ''keep-alive'' then h1\<lparr>close_connection := False\<rparr>
           else h1)
        else h1)"

definition flush_headers :: "handler \<Rightarrow> handler" where
  "flush_headers h =
     (case headers_buffer h of
        None \<Rightarrow> h
      | Some b \<Rightarrow> h\<lparr>wfile := wfile h @ concat b, headers_buffer := Some []\<rparr>)"

text \<open>
  The inherited \<^verbatim>\<open>end_headers\<close>. Appending to a buffer that was never created raises
  \<^verbatim>\<open>AttributeError\<close>.
\<close>

definition super_end_headers :: "handler \<Rightarrow> exn + handler" where
  "super_end_headers h =
     (if request_version h \<noteq> ''HTTP/0.9'' then
        (case headers_buffer h of
           None \<Rightarrow> Inl (OtherException ''AttributeError'')
         | Some b \<Rightarrow> Inr (flush_headers (h\<lparr>headers_buffer := Some (b @ [CRLF])\<rparr>)))
      else Inr h)"

text \<open>
  The override, lines 17 to 22 of the script:
  \<^verbatim>\<open>
    def end_headers(self):
        # Add CORS headers for testing
        self.send_header('Access-Control-Allow-Origin', '*')
        self.send_header('Access-Control-Allow-Methods', 'GET, POST, OPTIONS')
        self.send_header('Access-Control-Allow-Headers', 'Content-Type')
        super().end_headers()
  \<close>
\<close>

definition end_headers :: "handler \<Rightarrow> exn + handler" where
  "end_headers h =
     super_end_headers
       (send_header ''Access-Control-Allow-Headers'' ''Content-Type''
         (send_header ''Access-Control-Allow-Methods'' ''GET, POST, OPTIONS''
           (send_header ''Access-Control-Allow-Origin'' ''*'' h)))"

text \<open>The three header lines as they stand in a header block, in the order they are added.\<close>

definition cors_lines :: "string list" where
  "cors_lines =
     [''Access-Control-Allow-Origin: *'' @ CRLF,
      ''Access-Control-Allow-Methods: GET, POST, OPTIONS'' @ CRLF,
      ''Access-Control-Allow-Headers: Content-Type'' @ CRLF]"

text \<open>The buffered lines of a handler; none when the buffer does not exist yet.\<close>

definition buffered :: "handler \<Rightarrow> string list" where
  "buffered h = (case headers_buffer h of None \<Rightarrow> [] | Some b \<Rightarrow> b)"

subsection \<open>The environment and the effects of a run\<close>

text \<open>
  What the script is given and what happens around it. \<open>script_file\<close> is \<^verbatim>\<open>__file__\<close>;
  \<open>os_path_abspath\<close> and \<open>os_path_dirname\<close> are the platform's \<^verbatim>\<open>os.path\<close> functions
  (\<^verbatim>\<open>posixpath\<close> or \<^verbatim>\<open>ntpath\<close>, with the directory the process was started in), taken as they
  are; \<open>argv\<close> and \<open>environ\<close> are the command line and the environment variables;
  \<open>bind_error\<close> says, for an address \<^verbatim>\<open>(host, port)\<close>, which exception the construction of a
  \<^verbatim>\<open>socketserver.TCPServer\<close> on it raises (the constructor creates the socket, binds it and
  listens), \<open>None\<close> when it succeeds; \<open>events\<close> is what arrives, in order, once
  \<^verbatim>\<open>serve_forever\<close> runs.
\<close>

datatype event =
    Request string
  | Raises exn

record env =
  script_file :: string
  os_path_abspath :: "string \<Rightarrow> string"
  os_path_dirname :: "string \<Rightarrow> string"
  argv :: "string list"
  environ :: "(string \<times> string) list"
  bind_error :: "string \<times> int \<Rightarrow> exn option"
  events :: "event list"

text \<open>
  The effects, as the script causes them: \<open>Chdir d\<close> is \<^verbatim>\<open>os.chdir(d)\<close>; \<open>Bind host port\<close> is
  the call of the \<^verbatim>\<open>TCPServer\<close> constructor on \<^verbatim>\<open>(host, port)\<close>, whether it then succeeds
  or raises; \<open>Print s\<close> is \<^verbatim>\<open>print(s)\<close>; \<open>Handle r\<close> is the serve loop handing the request
  \<open>r\<close> to a new \<^verbatim>\<open>MyHTTPRequestHandler\<close>; \<open>ServerClose\<close> is the \<^verbatim>\<open>with\<close> statement closing
  the server on its way out.
\<close>

datatype effect =
    Chdir string
  | Bind string int
  | Print string
  | Handle string
  | ServerClose

text \<open>
  How a call has ended so far: it returned, it raised, or it is still inside
  \<^verbatim>\<open>serve_forever\<close>, waiting for the next event.
\<close>

datatype outcome =
    Returned
  | Raised exn
  | Serving

text \<open>
  The exit status of the process, as far as the script decides it: 0 once the module has run
  to its end. While the process is still serving there is none yet. After an exception
  nobody caught, the status is the interpreter's choice, by the exception (1 after a
  traceback, the code of a \<^verbatim>\<open>SystemExit\<close>, the interrupt signal for \<^verbatim>\<open>KeyboardInterrupt\<close>);
  it is left open here.
\<close>

fun exit_code :: "outcome \<Rightarrow> int option" where
  "exit_code Returned = Some 0"
| "exit_code (Raised e) = None"
| "exit_code Serving = None"

text \<open>The working directory after a list of effects, from the one before it.\<close>

fun cwd_after :: "string \<Rightarrow> effect list \<Rightarrow> string" where
  "cwd_after c [] = c"
| "cwd_after c (Chdir d # fx) = cwd_after d fx"
| "cwd_after c (_ # fx) = cwd_after c fx"

text \<open>The addresses a list of effects binds a listener to, and the lines it prints.\<close>

fun binds :: "effect list \<Rightarrow> (string \<times> int) list" where
  "binds [] = []"
| "binds (Bind host port # fx) = (host, port) # binds fx"
| "binds (_ # fx) = binds fx"

fun printed :: "effect list \<Rightarrow> string list" where
  "printed [] = []"
| "printed (Print s # fx) = s # printed fx"
| "printed (_ # fx) = printed fx"

text \<open>
  The host of a socket address: Python's \<^verbatim>\<open>socket\<close> module reads the empty string as
  \<^verbatim>\<open>INADDR_ANY\<close>, every local interface.
\<close>

datatype interface =
    AllInterfaces
  | Host string

definition interface_of :: "string \<Rightarrow> interface" where
  "interface_of host = (if host = '''' then AllInterfaces else Host host)"

text \<open>
  The error number of "address already in use" (\<^verbatim>\<open>errno.EADDRINUSE\<close>) is the platform's:
  48 on macOS and the BSDs, 98 on Linux, 10048 (\<^verbatim>\<open>WSAEADDRINUSE\<close>) on Windows.
\<close>

datatype platform =
    Darwin
  | Linux
  | Windows

fun EADDRINUSE :: "platform \<Rightarrow> int" where
  "EADDRINUSE Darwin = 48"
| "EADDRINUSE Linux = 98"
| "EADDRINUSE Windows = 10048"

text \<open>
  The \<^verbatim>\<open>OSError\<close> that binding a port another process holds raises on a platform, with
  the text \<^verbatim>\<open>str(e)\<close> gives.
\<close>

definition address_in_use :: "platform \<Rightarrow> string \<Rightarrow> exn" where
  "address_in_use p s = OSError (Some (EADDRINUSE p)) s"

subsection \<open>The module\<close>

text \<open>Line 14: \<^verbatim>\<open>PORT = 8000\<close>.\<close>

definition PORT :: int where
  "PORT = 8000"

text \<open>
  The constructor call \<^verbatim>\<open>socketserver.TCPServer(("", PORT), MyHTTPRequestHandler)\<close>: it
  raises what the environment says, or gives the server, here its address.
\<close>

definition TCPServer :: "env \<Rightarrow> string \<times> int \<Rightarrow> exn + (string \<times> int)" where
  "TCPServer env address =
     (case bind_error env address of Some e \<Rightarrow> Inl e | None \<Rightarrow> Inr address)"

text \<open>
  \<^verbatim>\<open>httpd.serve_forever()\<close>: each request is handed to the handler class, one after the
  other; an exception that reaches the loop ends it (the interrupt signal arrives as
  \<^verbatim>\<open>KeyboardInterrupt\<close>). The loop never returns by itself, nothing calls \<^verbatim>\<open>shutdown\<close>: when
  the events are used up it is still waiting, which is the result \<open>None\<close>.
\<close>

fun serve_forever :: "event list \<Rightarrow> effect list \<times> exn option" where
  "serve_forever [] = ([], None)"
| "serve_forever (Request r # es) =
     (case serve_forever es of (fx, r') \<Rightarrow> (Handle r # fx, r'))"
| "serve_forever (Raises e # es) = ([], Some e)"

text \<open>
  Lines 27 to 36, the ten lines printed once the server exists. The argument is
  \<^verbatim>\<open>os.getcwd()\<close>.
\<close>

definition banner :: "string \<Rightarrow> string list" where
  "banner cwd =
     [[CHR 0xF0, CHR 0x9F, CHR 0x9A, CHR 0x80] @ '' Test server started!'',
      [CHR 0xF0, CHR 0x9F, CHR 0x93, CHR 0x81] @ '' Serving files from: '' @ cwd,
      [CHR 0xF0, CHR 0x9F, CHR 0x8C, CHR 0x90]
        @ '' Open your browser and go to: http://localhost:'' @ str_int PORT,
      [CHR 0xF0, CHR 0x9F, CHR 0x93, CHR 0x8B]
        @ '' Test URL: http://localhost:'' @ str_int PORT @ ''/index.html'',
      [CHR 0xE2, CHR 0x8F, CHR 0xB9, CHR 0xEF, CHR 0xB8, CHR 0x8F]
        @ ''  Press Ctrl+C to stop the server'',
      [CHR 0x0A, CHR 0xE2, CHR 0x9C, CHR 0xA8] @ '' Features:'',
      ''   '' @ [CHR 0xE2, CHR 0x80, CHR 0xA2]
        @ '' Theme switcher to test different glass effects'',
      ''   '' @ [CHR 0xE2, CHR 0x80, CHR 0xA2] @ '' Interactive terminal and codex windows'',
      ''   '' @ [CHR 0xE2, CHR 0x80, CHR 0xA2] @ '' Draggable windows'',
      ''   '' @ [CHR 0xE2, CHR 0x80, CHR 0xA2]
        @ '' Safe testing environment (won'' @ [CHR 0x27] @ ''t affect production)'']"

text \<open>Lines 39, 42, 43 and 45, the lines the \<^verbatim>\<open>except\<close> clauses print.\<close>

definition stopped_line :: string where
  "stopped_line = [CHR 0x0A, CHR 0xF0, CHR 0x9F, CHR 0x9B, CHR 0x91] @ '' Server stopped''"

definition port_in_use_line :: string where
  "port_in_use_line =
     [CHR 0xE2, CHR 0x9D, CHR 0x8C] @ '' Port '' @ str_int PORT @ '' is already in use!''"

definition try_other_port_line :: string where
  "try_other_port_line =
     [CHR 0xF0, CHR 0x9F, CHR 0x92, CHR 0xA1]
       @ '' Try a different port or stop the existing server''"

definition error_line :: "string \<Rightarrow> string" where
  "error_line str_e = [CHR 0xE2, CHR 0x9D, CHR 0x8C] @ '' Error: '' @ str_e"

text \<open>
  The body of the \<^verbatim>\<open>try\<close>, lines 26 to 37. An exception of the constructor leaves the
  \<^verbatim>\<open>with\<close> statement before it is entered; one raised inside it closes the server on the
  way out.
\<close>

definition with_block :: "env \<Rightarrow> string \<Rightarrow> effect list \<times> outcome" where
  "with_block env cwd =
     (case TCPServer env ('''', PORT) of
        Inl e \<Rightarrow> ([Bind '''' PORT], Raised e)
      | Inr httpd \<Rightarrow>
          (case serve_forever (events env) of
             (fx, None) \<Rightarrow> (Bind '''' PORT # map Print (banner cwd) @ fx, Serving)
           | (fx, Some e) \<Rightarrow>
               (Bind '''' PORT # map Print (banner cwd) @ fx @ [ServerClose], Raised e)))"

text \<open>
  \<^verbatim>\<open>main\<close>, lines 24 to 45: the \<^verbatim>\<open>try\<close> with its two \<^verbatim>\<open>except\<close> clauses,
  \<^verbatim>\<open>KeyboardInterrupt\<close> first, then \<^verbatim>\<open>OSError\<close> with the test \<^verbatim>\<open>e.errno == 48\<close>. An
  exception of any other class is not caught.
\<close>

definition main :: "env \<Rightarrow> string \<Rightarrow> effect list \<times> outcome" where
  "main env cwd =
     (case with_block env cwd of
        (fx, Raised KeyboardInterrupt) \<Rightarrow> (fx @ [Print stopped_line], Returned)
      | (fx, Raised (OSError errno str_e)) \<Rightarrow>
          (if errno = Some 48 then
             (fx @ [Print port_in_use_line, Print try_other_port_line], Returned)
           else (fx @ [Print (error_line str_e)], Returned))
      | (fx, out) \<Rightarrow> (fx, out))"

text \<open>
  The exceptions the \<^verbatim>\<open>except\<close> clauses of \<^verbatim>\<open>main\<close> catch:
  \<^verbatim>\<open>isinstance(e, (KeyboardInterrupt, OSError))\<close>.
\<close>

fun caught_by_main :: "exn \<Rightarrow> bool" where
  "caught_by_main KeyboardInterrupt = True"
| "caught_by_main (OSError errno str_e) = True"
| "caught_by_main (OtherException c) = False"

text \<open>
  The directory line 12 changes to, \<^verbatim>\<open>os.path.dirname(os.path.abspath(__file__))\<close>.
\<close>

definition script_dir :: "env \<Rightarrow> string" where
  "script_dir env = os_path_dirname env (os_path_abspath env (script_file env))"

text \<open>
  The module, run under the name \<open>dunder_name\<close> (\<^verbatim>\<open>__name__\<close>): line 12 changes the
  directory, lines 14 to 45 define the constant, the class and \<^verbatim>\<open>main\<close>, and lines 47 and
  48 call \<^verbatim>\<open>main\<close> when the module is the program. Inside \<^verbatim>\<open>main\<close>, \<^verbatim>\<open>os.getcwd()\<close> is
  then the directory of line 12. Here \<^verbatim>\<open>os.chdir\<close> and every \<^verbatim>\<open>print\<close> succeed, and
  \<^verbatim>\<open>os.getcwd()\<close> names the directory as \<^verbatim>\<open>os.chdir\<close> was given it; the last subsection of the
  model has these calls as the system decides them.
\<close>

definition run_module :: "env \<Rightarrow> string \<Rightarrow> effect list \<times> outcome" where
  "run_module env dunder_name =
     (if dunder_name = ''__main__'' then
        (case main env (script_dir env) of (fx, out) \<Rightarrow> (Chdir (script_dir env) # fx, out))
      else ([Chdir (script_dir env)], Returned))"

subsection \<open>Example runs\<close>

text \<open>
  A handler about to finish the headers of a 404 response, with \<^verbatim>\<open>'HTTP/1.1'\<close> as its
  \<open>request_version\<close> and the status line in its buffer; and a handler whose
  \<open>request_version\<close> is the default \<^verbatim>\<open>'HTTP/0.9'\<close>, for which no buffer was ever created.
\<close>

definition not_found_handler :: handler where
  "not_found_handler =
     \<lparr>request_version = ''HTTP/1.1'',
      headers_buffer = Some [''HTTP/1.0 404 File not found'' @ CRLF],
      close_connection = True,
      wfile = []\<rparr>"

definition simple_request_handler :: handler where
  "simple_request_handler =
     \<lparr>request_version = ''HTTP/0.9'',
      headers_buffer = None,
      close_connection = True,
      wfile = []\<rparr>"

text \<open>
  A run of the script from \<^verbatim>\<open>/srv/site/test3\<close>: the port is free, one request arrives, then
  the interrupt, then a request nobody is left to answer.
\<close>

definition example_env :: env where
  "example_env =
     \<lparr>script_file = ''/srv/site/test3/start-test-server.py'',
      os_path_abspath = (\<lambda>p. p),
      os_path_dirname = (\<lambda>p. rev (tl (dropWhile (\<lambda>c. c \<noteq> CHR ''/'') (rev p)))),
      argv = [''start-test-server.py''],
      environ = [(''HOME'', ''/root'')],
      bind_error = (\<lambda>address. None),
      events =
        [Request ''GET /index.html HTTP/1.1'', Raises KeyboardInterrupt,
         Request ''GET /late.html HTTP/1.1'']\<rparr>"

text \<open>The same run when constructing the listener raises \<open>e\<close>.\<close>

definition failing_env :: "exn \<Rightarrow> env" where
  "failing_env e = example_env\<lparr>bind_error := (\<lambda>address. Some e)\<rparr>"

subsection \<open>Changes of directory and prints that fail\<close>

text \<open>
  The model above is the run in which \<^verbatim>\<open>os.chdir\<close> and every \<^verbatim>\<open>print\<close> succeed and
  \<^verbatim>\<open>os.getcwd()\<close> gives back the path \<^verbatim>\<open>os.chdir\<close> was given. The script guards none of these
  calls by itself: line 12 stands outside \<^verbatim>\<open>main\<close>, the banner is printed inside the \<^verbatim>\<open>try\<close>
  and the \<^verbatim>\<open>with\<close>, and the prints of lines 39 to 45 stand inside the \<^verbatim>\<open>except\<close> clauses,
  where no clause of the same \<^verbatim>\<open>try\<close> catches what they raise. So here is the script once
  more with these calls as the system decides them: \<open>chdir_error\<close> is the exception
  \<^verbatim>\<open>os.chdir\<close> raises on a directory, \<open>print_error\<close> the exception \<^verbatim>\<open>print\<close> raises on a line
  (standard output may be unable to encode it, or be closed), \<open>None\<close> when the call
  succeeds, and \<open>os_getcwd\<close> is what \<^verbatim>\<open>os.getcwd()\<close> returns once \<^verbatim>\<open>os.chdir\<close> has succeeded
  on a directory, the same directory with its symbolic links resolved.
\<close>

record io =
  chdir_error :: "string \<Rightarrow> exn option"
  os_getcwd :: "string \<Rightarrow> string"
  print_error :: "string \<Rightarrow> exn option"

text \<open>
  Consecutive \<^verbatim>\<open>print\<close> statements: the first that raises ends them, and prints nothing
  itself.
\<close>

fun print_all :: "(string \<Rightarrow> exn option) \<Rightarrow> string list \<Rightarrow> effect list \<times> exn option" where
  "print_all pe [] = ([], None)"
| "print_all pe (s # ss) =
     (case pe s of
        Some e \<Rightarrow> ([], Some e)
      | None \<Rightarrow> (case print_all pe ss of (fx, r) \<Rightarrow> (Print s # fx, r)))"

text \<open>
  The body of the \<^verbatim>\<open>try\<close>, lines 26 to 37: an exception of a banner line leaves the
  \<^verbatim>\<open>with\<close> statement, which closes the server, before the serve loop is reached.
\<close>

definition with_block_io :: "io \<Rightarrow> env \<Rightarrow> string \<Rightarrow> effect list \<times> outcome" where
  "with_block_io io env cwd =
     (case TCPServer env ('''', PORT) of
        Inl e \<Rightarrow> ([Bind '''' PORT], Raised e)
      | Inr httpd \<Rightarrow>
          (case print_all (print_error io) (banner cwd) of
             (px, Some e) \<Rightarrow> (Bind '''' PORT # px @ [ServerClose], Raised e)
           | (px, None) \<Rightarrow>
               (case serve_forever (events env) of
                  (fx, None) \<Rightarrow> (Bind '''' PORT # px @ fx, Serving)
                | (fx, Some e) \<Rightarrow> (Bind '''' PORT # px @ fx @ [ServerClose], Raised e))))"

text \<open>
  The body of an \<^verbatim>\<open>except\<close> clause that prints the lines \<open>ls\<close>, after the effects \<open>fx\<close> of
  the \<^verbatim>\<open>try\<close>: \<^verbatim>\<open>main\<close> returns when they are printed, and what a print raises leaves
  \<^verbatim>\<open>main\<close>.
\<close>

definition except_clause ::
  "(string \<Rightarrow> exn option) \<Rightarrow> effect list \<Rightarrow> string list \<Rightarrow> effect list \<times> outcome" where
  "except_clause pe fx ls =
     (case print_all pe ls of
        (px, None) \<Rightarrow> (fx @ px, Returned)
      | (px, Some e) \<Rightarrow> (fx @ px, Raised e))"

text \<open>\<^verbatim>\<open>main\<close>, lines 24 to 45.\<close>

definition main_io :: "io \<Rightarrow> env \<Rightarrow> string \<Rightarrow> effect list \<times> outcome" where
  "main_io io env cwd =
     (case with_block_io io env cwd of
        (fx, Raised KeyboardInterrupt) \<Rightarrow> except_clause (print_error io) fx [stopped_line]
      | (fx, Raised (OSError errno str_e)) \<Rightarrow>
          (if errno = Some 48 then
             except_clause (print_error io) fx [port_in_use_line, try_other_port_line]
           else except_clause (print_error io) fx [error_line str_e])
      | (fx, out) \<Rightarrow> (fx, out))"

text \<open>
  The module, lines 12 to 48: an exception of \<^verbatim>\<open>os.chdir\<close> ends it before anything else
  happens; there is no \<^verbatim>\<open>try\<close> around line 12.
\<close>

definition run_module_io :: "io \<Rightarrow> env \<Rightarrow> string \<Rightarrow> effect list \<times> outcome" where
  "run_module_io io env dunder_name =
     (case chdir_error io (script_dir env) of
        Some e \<Rightarrow> ([], Raised e)
      | None \<Rightarrow>
          (if dunder_name = ''__main__'' then
             (case main_io io env (os_getcwd io (script_dir env)) of
                (fx, out) \<Rightarrow> (Chdir (script_dir env) # fx, out))
           else ([Chdir (script_dir env)], Returned)))"

text \<open>The lines the \<^verbatim>\<open>except\<close> clause that catches an exception prints.\<close>

fun except_lines :: "exn \<Rightarrow> string list" where
  "except_lines KeyboardInterrupt = [stopped_line]"
| "except_lines (OSError errno str_e) =
     (if errno = Some 48 then [port_in_use_line, try_other_port_line] else [error_line str_e])"
| "except_lines (OtherException c) = []"

text \<open>
  A system where every call succeeds, and one whose standard output encodes ASCII only, as
  under \<^verbatim>\<open>PYTHONIOENCODING=ascii\<close>: printing a line with a byte outside ASCII raises
  \<^verbatim>\<open>UnicodeEncodeError\<close>.
\<close>

definition ideal_io :: io where
  "ideal_io =
     \<lparr>chdir_error = (\<lambda>d. None), os_getcwd = (\<lambda>d. d), print_error = (\<lambda>s. None)\<rparr>"

definition ascii_stdout :: io where
  "ascii_stdout =
     ideal_io\<lparr>print_error :=
       (\<lambda>s. if list_all (\<lambda>c. (of_char c :: nat) < 128) s then None
            else Some (OtherException ''UnicodeEncodeError''))\<rparr>"

section \<open>Properties\<close>

subsection \<open>Auxiliary facts\<close>

lemma str_int_PORT: "str_int PORT = ''8000''"
  by (simp add: str_int_def PORT_def digit_char_def)

lemma lower_cors_names:
  "lower ''Access-Control-Allow-Origin'' \<noteq> ''connection''"
  "lower ''Access-Control-Allow-Methods'' \<noteq> ''connection''"
  "lower ''Access-Control-Allow-Headers'' \<noteq> ''connection''"
  by (simp_all add: lower_def)

text \<open>
  A header other than \<^verbatim>\<open>Connection\<close> only adds its line to the buffer, and does nothing
  for an HTTP/0.9 request.
\<close>

lemma send_header_cors:
  "lower k \<noteq> ''connection'' \<Longrightarrow> request_version h \<noteq> ''HTTP/0.9'' \<Longrightarrow>
   send_header k v h = h\<lparr>headers_buffer := Some (buffered h @ [k @ '': '' @ v @ CRLF])\<rparr>"
  by (simp add: send_header_def buffered_def)

lemma send_header_simple:
  "lower k \<noteq> ''connection'' \<Longrightarrow> request_version h = ''HTTP/0.9'' \<Longrightarrow> send_header k v h = h"
  by (simp add: send_header_def)


lemma serve_forever_requests: "serve_forever (map Request rs) = (map Handle rs, None)"
  by (induction rs) simp_all

lemma serve_forever_no_chdir: "Chdir d \<notin> set (fst (serve_forever es))"
  by (induction es rule: serve_forever.induct) (auto split: prod.splits)

text \<open>\<^verbatim>\<open>main\<close> when the constructor raises, and when it does not.\<close>

lemma main_bind_raises:
  assumes "bind_error env ('''', PORT) = Some e"
  shows "main env cwd =
     (case e of
        KeyboardInterrupt \<Rightarrow> ([Bind '''' PORT, Print stopped_line], Returned)
      | OSError errno str_e \<Rightarrow>
          (if errno = Some 48 then
             ([Bind '''' PORT, Print port_in_use_line, Print try_other_port_line], Returned)
           else ([Bind '''' PORT, Print (error_line str_e)], Returned))
      | OtherException c \<Rightarrow> ([Bind '''' PORT], Raised e))"
  using assms by (simp add: main_def with_block_def TCPServer_def split: exn.splits)

lemma main_serving:
  assumes "bind_error env ('''', PORT) = None"
  shows "main env cwd =
     (case serve_forever (events env) of
        (fx, None) \<Rightarrow> (Bind '''' PORT # map Print (banner cwd) @ fx, Serving)
      | (fx, Some KeyboardInterrupt) \<Rightarrow>
          (Bind '''' PORT # map Print (banner cwd) @ fx @ [ServerClose, Print stopped_line],
           Returned)
      | (fx, Some (OSError errno str_e)) \<Rightarrow>
          (if errno = Some 48 then
             (Bind '''' PORT # map Print (banner cwd) @ fx
                @ [ServerClose, Print port_in_use_line, Print try_other_port_line], Returned)
           else (Bind '''' PORT # map Print (banner cwd) @ fx
                @ [ServerClose, Print (error_line str_e)], Returned))
      | (fx, Some (OtherException c)) \<Rightarrow>
          (Bind '''' PORT # map Print (banner cwd) @ fx @ [ServerClose],
           Raised (OtherException c)))"
  using assms
  by (simp add: main_def with_block_def TCPServer_def
      split: exn.splits prod.splits option.splits)

text \<open>
  The \<^verbatim>\<open>OSError\<close> branch by platform: the test \<^verbatim>\<open>e.errno == 48\<close> recognises the address in
  use on macOS and the BSDs only.
\<close>

lemma main_address_in_use:
  assumes "bind_error env ('''', PORT) = Some (address_in_use p s)"
  shows "main env cwd =
    (if p = Darwin then
       ([Bind '''' PORT, Print port_in_use_line, Print try_other_port_line], Returned)
     else ([Bind '''' PORT, Print (error_line s)], Returned))"
  using assms by (cases p) (simp_all add: main_bind_raises address_in_use_def)

text \<open>\<^verbatim>\<open>main\<close> never changes the directory, binds exactly once, and reads no input.\<close>

lemma main_no_chdir: "Chdir d \<notin> set (fst (main env cwd))"
proof (cases "bind_error env ('''', PORT)")
  case None
  have "Chdir d \<notin> set (fst (serve_forever (events env)))"
    by (rule serve_forever_no_chdir)
  then show ?thesis
    using None by (auto simp: main_serving split: prod.splits option.splits exn.splits)
next
  case (Some e)
  then show ?thesis
    by (simp add: main_bind_raises split: exn.splits)
qed

lemma cwd_after_no_chdir: "\<forall>d. Chdir d \<notin> set fx \<Longrightarrow> cwd_after c fx = c"
  by (induction c fx rule: cwd_after.induct) auto

lemma binds_append: "binds (fx @ gx) = binds fx @ binds gx"
  by (induction fx rule: binds.induct) simp_all

lemma binds_Print: "binds (map Print ls) = []"
  by (induction ls) simp_all

lemma binds_serve_forever: "binds (fst (serve_forever es)) = []"
  by (induction es rule: serve_forever.induct) (auto split: prod.splits)

lemma binds_main: "binds (fst (main env cwd)) = [('''', PORT)]"
proof (cases "bind_error env ('''', PORT)")
  case None
  have "binds (fst (serve_forever (events env))) = []"
    by (rule binds_serve_forever)
  then show ?thesis
    using None
    by (auto simp: main_serving binds_append binds_Print
        split: prod.splits option.splits exn.splits)
next
  case (Some e)
  then show ?thesis
    by (simp add: main_bind_raises split: exn.splits)
qed

lemma main_ignores_argv_environ: "main (env\<lparr>argv := a, environ := v\<rparr>) cwd = main env cwd"
  by (simp add: main_def with_block_def TCPServer_def split: option.splits)

text \<open>The module as the program, and imported.\<close>

lemma run_module_main:
  "run_module env ''__main__'' =
     (Chdir (script_dir env) # fst (main env (script_dir env)), snd (main env (script_dir env)))"
  by (simp add: run_module_def split: prod.splits)

lemma run_module_import:
  "dn \<noteq> ''__main__'' \<Longrightarrow> run_module env dn = ([Chdir (script_dir env)], Returned)"
  by (simp add: run_module_def)

lemma run_module_Cons:
  "fst (run_module env dn) = Chdir (script_dir env) # tl (fst (run_module env dn)) \<and>
   (\<forall>d. Chdir d \<notin> set (tl (fst (run_module env dn))))"
  by (cases "dn = ''__main__''") (simp_all add: run_module_main run_module_import main_no_chdir)

text \<open>No line of the banner is among the lines of the \<^verbatim>\<open>except\<close> clauses.\<close>

lemma banner_not_printed_on_failure:
  assumes "bind_error env ('''', PORT) = Some e"
  shows "set (banner c) \<inter> set (printed (fst (main env cwd))) = {}"
  using assms
  by (cases e)
    (simp_all add: main_bind_raises banner_def stopped_line_def port_in_use_line_def
      try_other_port_line_def error_line_def)

text \<open>The example run.\<close>

lemma script_dir_example: "script_dir example_env = ''/srv/site/test3''"
  by (simp add: script_dir_def example_env_def)

lemma example_run:
  "run_module example_env ''__main__'' =
     (Chdir ''/srv/site/test3'' # Bind '''' 8000 # map Print (banner ''/srv/site/test3'')
        @ [Handle ''GET /index.html HTTP/1.1'', ServerClose, Print stopped_line],
      Returned)"
proof -
  have "bind_error example_env ('''', PORT) = None"
    by (simp add: example_env_def)
  then show ?thesis
    by (simp add: run_module_main script_dir_example main_serving)
      (simp add: example_env_def PORT_def)
qed

text \<open>
  Prints that all succeed; and the script in a system where every call succeeds, which is
  the run of the first model.
\<close>

lemma print_all_ok: "\<forall>s\<in>set ss. pe s = None \<Longrightarrow> print_all pe ss = (map Print ss, None)"
  by (induction ss) simp_all

lemma print_all_never: "print_all (\<lambda>s. None) ss = (map Print ss, None)"
  by (rule print_all_ok) simp

lemma except_clause_ok:
  "\<forall>s\<in>set ls. pe s = None \<Longrightarrow> except_clause pe fx ls = (fx @ map Print ls, Returned)"
  by (simp add: except_clause_def print_all_ok)

lemma snd_except_clause:
  "snd (except_clause pe fx ls) =
     (case snd (print_all pe ls) of None \<Rightarrow> Returned | Some e \<Rightarrow> Raised e)"
  by (simp add: except_clause_def split: prod.splits option.splits)

lemma with_block_io_ideal:
  "print_error io = (\<lambda>s. None) \<Longrightarrow> with_block_io io env cwd = with_block env cwd"
  by (simp add: with_block_io_def with_block_def print_all_never
      split: sum.splits prod.splits option.splits)

lemma main_io_ideal:
  assumes "print_error io = (\<lambda>s. None)"
  shows "main_io io env cwd = main env cwd"
  using assms
  by (simp add: main_io_def main_def with_block_io_ideal except_clause_ok
      split: prod.splits outcome.splits exn.splits)

lemma run_module_io_ideal: "run_module_io ideal_io env dn = run_module env dn"
  by (simp add: run_module_io_def run_module_def ideal_io_def main_io_ideal)

text \<open>
  What the \<^verbatim>\<open>try\<close> raises when the constructor or a banner line does, and \<^verbatim>\<open>main\<close> after
  it.
\<close>

lemma with_block_io_raises:
  assumes "bind_error env ('''', PORT) = Some e \<or>
           (bind_error env ('''', PORT) = None \<and>
            snd (print_all (print_error io) (banner cwd)) = Some e)"
  shows "snd (with_block_io io env cwd) = Raised e"
  using assms
  by (auto simp: with_block_io_def TCPServer_def split: prod.splits option.splits)

lemma main_io_after_raise:
  assumes "snd (with_block_io io env cwd) = Raised e"
  shows "main_io io env cwd =
     (if caught_by_main e then
        except_clause (print_error io) (fst (with_block_io io env cwd)) (except_lines e)
      else with_block_io io env cwd)"
  using assms
  by (cases "with_block_io io env cwd"; cases e) (simp_all add: main_io_def)

lemma except_lines_caught: "caught_by_main e \<Longrightarrow> except_lines e \<noteq> []"
  by (cases e) simp_all

text \<open>
  The example run when standard output encodes ASCII only: the first line of the banner
  cannot be printed, the server is closed again, and the exception leaves \<^verbatim>\<open>main\<close>.
\<close>

lemma example_run_ascii_stdout:
  "main_io ascii_stdout example_env ''/srv/site/test3''
     = ([Bind '''' 8000, ServerClose], Raised (OtherException ''UnicodeEncodeError''))"
  by (simp add: main_io_def with_block_io_def TCPServer_def example_env_def PORT_def
      banner_def ascii_stdout_def ideal_io_def)

subsection \<open>The CORS headers\<close>

text \<open>
  Claim C1, as amended. Finishing the headers of a response never fails. When the
  \<open>request_version\<close> of the handler is anything but \<^verbatim>\<open>'HTTP/0.9'\<close> as \<^verbatim>\<open>end_headers\<close> is
  called, the call writes one header block to the connection: the lines buffered so far
  (the status line and the headers of the inherited method, whatever the status), then
  exactly the three lines
  \<^verbatim>\<open>Access-Control-Allow-Origin: *\<close>, \<^verbatim>\<open>Access-Control-Allow-Methods: GET, POST, OPTIONS\<close> and
  \<^verbatim>\<open>Access-Control-Allow-Headers: Content-Type\<close>, in this order, then the blank line that
  ends the block; the buffer is left empty. When the \<open>request_version\<close> is \<^verbatim>\<open>'HTTP/0.9'\<close>,
  the handler is left as it was: nothing is buffered, nothing is written, the response has
  no header block.
\<close>

theorem end_headers_cors:
  "end_headers h =
     Inr (if request_version h = ''HTTP/0.9'' then h
          else h\<lparr>wfile := wfile h @ concat (buffered h @ cors_lines @ [CRLF]),
                 headers_buffer := Some []\<rparr>)"
proof (cases "request_version h = ''HTTP/0.9''")
  case True
  then show ?thesis
    by (simp add: end_headers_def send_header_simple lower_cors_names super_end_headers_def)
next
  case False
  then show ?thesis
    by (simp add: end_headers_def send_header_cors lower_cors_names super_end_headers_def
        flush_headers_def buffered_def cors_lines_def)
qed

text \<open>The header block of the 404 response.\<close>

theorem end_headers_cors_witness:
  "request_version not_found_handler \<noteq> ''HTTP/0.9'' \<and>
   end_headers not_found_handler =
     Inr (not_found_handler
           \<lparr>wfile := ''HTTP/1.0 404 File not found'' @ CRLF
              @ ''Access-Control-Allow-Origin: *'' @ CRLF
              @ ''Access-Control-Allow-Methods: GET, POST, OPTIONS'' @ CRLF
              @ ''Access-Control-Allow-Headers: Content-Type'' @ CRLF
              @ CRLF,
            headers_buffer := Some []\<rparr>)"
  using end_headers_cors [of not_found_handler]
  by (simp add: not_found_handler_def buffered_def cors_lines_def)

text \<open>
  Claim C1 as it is stated fails in a handler whose \<open>request_version\<close> is
  \<^verbatim>\<open>'HTTP/0.9'\<close>: the three calls of \<^verbatim>\<open>send_header\<close> and the inherited \<^verbatim>\<open>end_headers\<close> all
  skip their work, so the response goes out with no header at all.
\<close>

theorem end_headers_simple_request_counterexample:
  "end_headers simple_request_handler = Inr simple_request_handler \<and>
   wfile simple_request_handler = [] \<and> headers_buffer simple_request_handler = None"
  by (simp add: end_headers_def send_header_simple lower_cors_names super_end_headers_def
      simple_request_handler_def)

subsection \<open>Failures of the listener\<close>

text \<open>
  Claim C2, at the input where the script misses it. On Linux the port held by another
  process gives \<^verbatim>\<open>OSError\<close> with \<^verbatim>\<open>errno\<close> 98; the script compares with 48, so it prints the
  generic error line and not the two lines about the port. It still returns without
  serving.
\<close>

theorem main_address_in_use_linux:
  "main (failing_env (address_in_use Linux ''[Errno 98] Address already in use'')) cwd =
     ([Bind '''' 8000, Print (error_line ''[Errno 98] Address already in use'')], Returned)"
proof -
  have "bind_error (failing_env (address_in_use Linux ''[Errno 98] Address already in use''))
          ('''', PORT)
        = Some (address_in_use Linux ''[Errno 98] Address already in use'')"
    by (simp add: failing_env_def)
  from main_address_in_use [OF this] show ?thesis
    by (simp add: PORT_def)
qed

text \<open>
  Claim C3, as amended. Let the constructor of the listener, or a line of the banner after
  it, raise \<open>e\<close> inside \<^verbatim>\<open>main\<close>. When \<open>e\<close> is an \<^verbatim>\<open>OSError\<close> or a \<^verbatim>\<open>KeyboardInterrupt\<close>,
  \<^verbatim>\<open>main\<close> catches it and prints the lines of its \<^verbatim>\<open>except\<close> clause; when these prints
  succeed, the lines are the last thing printed, \<^verbatim>\<open>main\<close> returns and the exit status is 0,
  and when one of them raises, that exception leaves \<^verbatim>\<open>main\<close>. When \<open>e\<close> is of any other
  class, it leaves \<^verbatim>\<open>main\<close> and no \<^verbatim>\<open>except\<close> clause runs. What leaves \<^verbatim>\<open>main\<close> leaves the
  module. An exception of \<^verbatim>\<open>os.chdir\<close> on line 12, of whatever class, ends the module before
  \<^verbatim>\<open>main\<close> is called.
\<close>

theorem startup_errors_caught:
  assumes "bind_error env ('''', PORT) = Some e \<or>
           (bind_error env ('''', PORT) = None \<and>
            snd (print_all (print_error io) (banner cwd)) = Some e)"
  shows "snd (main_io io env cwd) =
           (if caught_by_main e then
              (case snd (print_all (print_error io) (except_lines e)) of
                 None \<Rightarrow> Returned
               | Some e' \<Rightarrow> Raised e')
            else Raised e) \<and>
         (caught_by_main e \<and> (\<forall>s\<in>set (except_lines e). print_error io s = None) \<longrightarrow>
            main_io io env cwd =
              (fst (with_block_io io env cwd) @ map Print (except_lines e), Returned) \<and>
            except_lines e \<noteq> [] \<and>
            exit_code (snd (main_io io env cwd)) = Some 0) \<and>
         (\<not> caught_by_main e \<longrightarrow> main_io io env cwd = with_block_io io env cwd) \<and>
         (chdir_error io (script_dir env) = None \<longrightarrow>
            snd (run_module_io io env ''__main__'')
              = snd (main_io io env (os_getcwd io (script_dir env)))) \<and>
         (chdir_error io (script_dir env) = Some e0 \<longrightarrow>
            run_module_io io env dn = ([], Raised e0))"
proof -
  have r: "snd (with_block_io io env cwd) = Raised e"
    using assms by (rule with_block_io_raises)
  note m = main_io_after_raise [OF r]
  have "snd (main_io io env cwd) =
           (if caught_by_main e then
              (case snd (print_all (print_error io) (except_lines e)) of
                 None \<Rightarrow> Returned
               | Some e' \<Rightarrow> Raised e')
            else Raised e)"
    by (simp add: m snd_except_clause r)
  moreover have "main_io io env cwd =
              (fst (with_block_io io env cwd) @ map Print (except_lines e), Returned) \<and>
            except_lines e \<noteq> [] \<and>
            exit_code (snd (main_io io env cwd)) = Some 0"
    if "caught_by_main e" and "\<forall>s\<in>set (except_lines e). print_error io s = None"
    using that by (simp add: m except_clause_ok except_lines_caught)
  moreover have "main_io io env cwd = with_block_io io env cwd" if "\<not> caught_by_main e"
    using that by (simp add: m)
  moreover have "snd (run_module_io io env ''__main__'')
              = snd (main_io io env (os_getcwd io (script_dir env)))"
    if "chdir_error io (script_dir env) = None"
    using that by (simp add: run_module_io_def split: prod.splits)
  moreover have "run_module_io io env dn = ([], Raised e0)"
    if "chdir_error io (script_dir env) = Some e0"
    using that by (simp add: run_module_io_def)
  ultimately show ?thesis by blast
qed

text \<open>A port the user may not bind, in a system where the prints succeed.\<close>

theorem startup_errors_caught_witness:
  "bind_error (failing_env (OSError (Some 13) ''[Errno 13] Permission denied'')) ('''', PORT)
     = Some (OSError (Some 13) ''[Errno 13] Permission denied'') \<and>
   caught_by_main (OSError (Some 13) ''[Errno 13] Permission denied'') \<and>
   main_io ideal_io (failing_env (OSError (Some 13) ''[Errno 13] Permission denied''))
       ''/srv/site/test3''
     = ([Bind '''' 8000, Print (error_line ''[Errno 13] Permission denied'')], Returned) \<and>
   exit_code (snd (main_io ideal_io
       (failing_env (OSError (Some 13) ''[Errno 13] Permission denied'')) ''/srv/site/test3''))
     = Some 0"
proof -
  have h: "bind_error (failing_env (OSError (Some 13) ''[Errno 13] Permission denied''))
             ('''', PORT)
           = Some (OSError (Some 13) ''[Errno 13] Permission denied'')"
    by (simp add: failing_env_def)
  have w: "with_block_io ideal_io
             (failing_env (OSError (Some 13) ''[Errno 13] Permission denied''))
             ''/srv/site/test3''
           = ([Bind '''' 8000], Raised (OSError (Some 13) ''[Errno 13] Permission denied''))"
    by (simp add: with_block_io_def TCPServer_def failing_env_def PORT_def)
  from startup_errors_caught [where io = ideal_io and cwd = "''/srv/site/test3''",
      OF disjI1, OF h] h w
  show ?thesis
    by (simp add: ideal_io_def)
qed

text \<open>
  Claim C3 as it is stated fails in three ways. An exception that is neither an
  \<^verbatim>\<open>OSError\<close> nor a \<^verbatim>\<open>KeyboardInterrupt\<close> passes both \<^verbatim>\<open>except\<close> clauses. When the port is
  held by another process and standard output encodes ASCII only, the \<^verbatim>\<open>OSError\<close> is
  caught, but the first line of the clause cannot be printed: nothing is printed and
  \<^verbatim>\<open>UnicodeEncodeError\<close> leaves \<^verbatim>\<open>main\<close>. And an \<^verbatim>\<open>OSError\<close> of line 12 is raised before
  \<^verbatim>\<open>main\<close> is called.
\<close>

theorem startup_errors_counterexample:
  "main_io ideal_io (failing_env (OtherException ''MemoryError'')) ''/srv/site/test3''
     = ([Bind '''' 8000], Raised (OtherException ''MemoryError'')) \<and>
   main_io ascii_stdout
       (failing_env (address_in_use Darwin ''[Errno 48] Address already in use''))
       ''/srv/site/test3''
     = ([Bind '''' 8000], Raised (OtherException ''UnicodeEncodeError'')) \<and>
   run_module_io
       (ideal_io\<lparr>chdir_error := (\<lambda>d. Some (OSError (Some 13) ''[Errno 13] Permission denied''))\<rparr>)
       example_env ''__main__''
     = ([], Raised (OSError (Some 13) ''[Errno 13] Permission denied''))"
  by (simp add: main_io_def with_block_io_def TCPServer_def failing_env_def PORT_def
      except_clause_def address_in_use_def port_in_use_line_def ascii_stdout_def ideal_io_def
      run_module_io_def)

subsection \<open>The interrupt\<close>



subsection \<open>The working directory\<close>

text \<open>
  Claim C7. Whatever the environment does and whether the module is run or imported, the
  first effect of the module is the change to the directory of the script,
  \<^verbatim>\<open>os.path.dirname(os.path.abspath(__file__))\<close>, and no later effect changes the directory:
  after every non-empty prefix of the run, from whatever directory the process started in,
  the working directory is the directory of the script.
\<close>

theorem working_directory_set_once:
  "fst (run_module env dn) = Chdir (script_dir env) # tl (fst (run_module env dn)) \<and>
   (\<forall>d. Chdir d \<notin> set (tl (fst (run_module env dn)))) \<and>
   (\<forall>n. 0 < n \<longrightarrow> cwd_after c0 (take n (fst (run_module env dn))) = script_dir env)"
proof -
  let ?fx = "tl (fst (run_module env dn))"
  have first: "fst (run_module env dn) = Chdir (script_dir env) # ?fx"
    and no: "\<forall>d. Chdir d \<notin> set ?fx"
    using run_module_Cons [of env dn] by simp_all
  have "cwd_after c0 (take n (fst (run_module env dn))) = script_dir env" if pos: "0 < n" for n
  proof -
    from pos obtain m where n: "n = Suc m"
      by (cases n) auto
    have "\<forall>d. Chdir d \<notin> set (take m ?fx)"
      using no by (meson in_set_takeD)
    then have "cwd_after (script_dir env) (take m ?fx) = script_dir env"
      by (rule cwd_after_no_chdir)
    moreover have "take n (fst (run_module env dn)) = Chdir (script_dir env) # take m ?fx"
      by (subst first) (simp add: n)
    ultimately show ?thesis by simp
  qed
  with first no show ?thesis by blast
qed

theorem working_directory_set_once_witness:
  "fst (run_module example_env ''__main__'') =
     Chdir ''/srv/site/test3'' # tl (fst (run_module example_env ''__main__'')) \<and>
   cwd_after ''/home/user'' (take 1 (fst (run_module example_env ''__main__'')))
     = ''/srv/site/test3'' \<and>
   cwd_after ''/home/user'' (take 14 (fst (run_module example_env ''__main__'')))
     = ''/srv/site/test3''"
  using working_directory_set_once [where env = example_env and dn = "''__main__''"
      and ?c0.0 = "''/home/user''"]
  by (simp add: script_dir_example)

text \<open>
  Claim C9. The change of directory belongs to the module and not to \<^verbatim>\<open>main\<close>: a module
  that is imported (its name is not \<^verbatim>\<open>__main__\<close>) does nothing but change to the directory
  of the script, without calling \<^verbatim>\<open>main\<close>; when the module is the program, the change comes
  before every effect of \<^verbatim>\<open>main\<close>. Either way the working directory afterwards is the
  directory of the script.
\<close>

theorem chdir_at_import:
  "(dn \<noteq> ''__main__'' \<longrightarrow> run_module env dn = ([Chdir (script_dir env)], Returned)) \<and>
   run_module env ''__main__'' =
     (Chdir (script_dir env) # fst (main env (script_dir env)),
      snd (main env (script_dir env))) \<and>
   cwd_after c0 (fst (run_module env dn)) = script_dir env"
proof -
  have "cwd_after (script_dir env) (fst (main env (script_dir env))) = script_dir env"
    by (rule cwd_after_no_chdir) (simp add: main_no_chdir)
  then show ?thesis
    by (cases "dn = ''__main__''") (simp_all add: run_module_main run_module_import)
qed

theorem chdir_at_import_witness:
  "''start_test_server'' \<noteq> ''__main__'' \<and>
   run_module example_env ''start_test_server'' = ([Chdir ''/srv/site/test3''], Returned) \<and>
   cwd_after ''/home/user'' (fst (run_module example_env ''start_test_server''))
     = ''/srv/site/test3''"
  using chdir_at_import [where dn = "''start_test_server''" and env = example_env
      and ?c0.0 = "''/home/user''"]
  by (simp add: script_dir_example)

subsection \<open>The listener\<close>

text \<open>
  Claim C8. The port is the constant 8000. A run of the script constructs one listener, on
  the address \<^verbatim>\<open>("", 8000)\<close>, whose host stands for every local interface, whatever the
  environment; and the command line and the environment variables change nothing of a run.
\<close>

theorem port_fixed_all_interfaces:
  "PORT = 8000 \<and>
   binds (fst (run_module env ''__main__'')) = [('''', 8000)] \<and>
   interface_of (fst (hd (binds (fst (run_module env ''__main__''))))) = AllInterfaces \<and>
   run_module (env\<lparr>argv := a, environ := v\<rparr>) dn = run_module env dn"
proof -
  have "binds (fst (run_module env ''__main__'')) = [('''', 8000)]"
    using binds_main [of env "script_dir env"]
    by (simp add: run_module_main PORT_def)
  moreover have "run_module (env\<lparr>argv := a, environ := v\<rparr>) dn = run_module env dn"
    by (simp add: run_module_def script_dir_def main_ignores_argv_environ)
  ultimately show ?thesis
    by (simp add: PORT_def interface_of_def)
qed

theorem port_fixed_all_interfaces_witness:
  "binds (fst (run_module example_env ''__main__'')) = [('''', 8000)] \<and>
   run_module (example_env\<lparr>argv := [''start-test-server.py'', ''--port'', ''9000''],
                            environ := [(''PORT'', ''9000'')]\<rparr>) ''__main__''
     = run_module example_env ''__main__''"
  using port_fixed_all_interfaces [where env = example_env
      and a = "[''start-test-server.py'', ''--port'', ''9000'']"
      and v = "[(''PORT'', ''9000'')]" and dn = "''__main__''"]
  by simp

text \<open>
  Claim C10. The first effect of \<^verbatim>\<open>main\<close> is the construction of the listener. When it
  raises, whatever the exception, none of the banner lines (for any directory they could
  name) is among the lines \<^verbatim>\<open>main\<close> prints; when it succeeds, the ten banner lines follow
  it at once.
\<close>

theorem banner_only_after_bind:
  "take 1 (fst (main env cwd)) = [Bind '''' PORT] \<and>
   (bind_error env ('''', PORT) \<noteq> None \<longrightarrow>
      set (banner c) \<inter> set (printed (fst (main env cwd))) = {}) \<and>
   (bind_error env ('''', PORT) = None \<longrightarrow>
      take (Suc (length (banner cwd))) (fst (main env cwd))
        = Bind '''' PORT # map Print (banner cwd))"
proof (cases "bind_error env ('''', PORT)")
  case None
  then show ?thesis
    by (auto simp: main_serving split: prod.splits option.splits exn.splits)
next
  case (Some e)
  with banner_not_printed_on_failure [OF Some] show ?thesis
    by (simp add: main_bind_raises split: exn.splits)
qed

text \<open>The port held by another process, on macOS.\<close>

theorem banner_only_after_bind_witness:
  "bind_error (failing_env (address_in_use Darwin ''[Errno 48] Address already in use''))
     ('''', PORT) \<noteq> None \<and>
   printed (fst (main (failing_env (address_in_use Darwin ''[Errno 48] Address already in use''))
     ''/srv/site/test3'')) = [port_in_use_line, try_other_port_line] \<and>
   set (banner ''/srv/site/test3'') \<inter>
     set (printed (fst (main
       (failing_env (address_in_use Darwin ''[Errno 48] Address already in use''))
       ''/srv/site/test3''))) = {}"
proof -
  have b: "bind_error (failing_env (address_in_use Darwin ''[Errno 48] Address already in use''))
             ('''', PORT)
           = Some (address_in_use Darwin ''[Errno 48] Address already in use'')"
    by (simp add: failing_env_def)
  have p: "printed (fst (main
             (failing_env (address_in_use Darwin ''[Errno 48] Address already in use''))
             ''/srv/site/test3'')) = [port_in_use_line, try_other_port_line]"
    by (simp add: main_address_in_use [OF b])
  from banner_only_after_bind [of
      "failing_env (address_in_use Darwin ''[Errno 48] Address already in use'')"
      "''/srv/site/test3''" "''/srv/site/test3''"] b p
  show ?thesis by simp
qed

end
